theory Spec2Isabelle
  imports Complex_Main
begin

section \<open>Anchor-target assignment (frcnn/anchor.py)\<close>

text \<open>
  A shallow embedding of the class \<open>AnchorTarget\<close> of \<open>src/frcnn/anchor.py\<close>.

  \<^item> A numpy array of shape \<open>(n,)\<close> is a list; an array of shape \<open>(n, 4)\<close> is a list of
    4-tuples; the overlap matrix of shape \<open>(N, M)\<close> is a list of \<open>N\<close> rows together with
    the number \<open>M\<close> of columns (\<open>overlaps.shape[1]\<close>), which a list of rows alone does not
    determine when \<open>N = 0\<close>.
  \<^item> Floating-point numbers are modelled as reals: they are compared, and one quotient is
    stored; no NaN is produced by the overlap computation. The one float product whose
    rounding decides an integer (line 167) is a parameter of the model. The label array
    (\<open>float32\<close> holding -1, 0 and 1) is a list of integers.
  \<^item> Every exception is a value of \<open>error\<close>; a function that can raise returns
    \<open>error + 'a\<close>.
  \<^item> The functions imported from \<open>utils\<close> (\<open>generate_anchors\<close>, \<open>bbox_overlaps\<close>,
    \<open>bbox_transform\<close>) are not part of the file; they are parameters of the model.
  \<^item> \<open>np.random.choice\<close> draws from numpy's global generator; the generator is a state
    \<open>'g\<close> threaded through the sampler, and the draw itself is a parameter.
\<close>

subsection \<open>Errors and sequencing\<close>

datatype error = NameError | ValueError | AssertionError | TypeError | IndexError

definition bind_e :: "error + 'a \<Rightarrow> ('a \<Rightarrow> error + 'b) \<Rightarrow> error + 'b" where
  "bind_e m f = (case m of Inl e \<Rightarrow> Inl e | Inr x \<Rightarrow> f x)"

subsection \<open>Rows, boxes and the instance attributes\<close>

type_synonym vec4 = "real \<times> real \<times> real \<times> real"

text \<open>The attributes that \<open>__init__\<close> (lines 43-57) sets on \<open>self\<close>, and the cached
  \<open>_anchors\<close> of the property \<open>anchors\<close> (lines 233-237).\<close>

record anchor_target =
  anchor_scales :: "real list"
  anchor_ratios :: "real list"
  anchors_cache :: "vec4 list"
  num_anchors :: nat
  feat_stride :: "int list"
  allowed_border :: real
  clobber_positives :: bool
  positive_overlap :: real
  negative_overlap :: real
  foreground_fraction :: real
  batch_size :: int
  inside_weight_const :: vec4

text \<open>\<open>__init__\<close>: the thresholds, the fraction and the batch size are not arguments; they
  are assigned the constants below. No statement of the constructor raises.
  \<open>self.anchors\<close> is read on line 48, after scales and ratios are stored, which fills the
  cache from \<open>generate_anchors(ratios=..., scales=...)\<close>.\<close>

definition AnchorTarget_init ::
  "(real list \<Rightarrow> real list \<Rightarrow> vec4 list) \<Rightarrow> real list \<Rightarrow> real list \<Rightarrow> int list
     \<Rightarrow> error + anchor_target" where
  "AnchorTarget_init generate_anchors scales ratios fstride =
     (let anchors = generate_anchors ratios scales in
      Inr \<lparr> anchor_scales = scales,
            anchor_ratios = ratios,
            anchors_cache = anchors,
            num_anchors = length anchors,
            feat_stride = fstride,
            allowed_border = 0,
            clobber_positives = False,
            positive_overlap = 7 / 10,
            negative_overlap = 3 / 10,
            foreground_fraction = 1 / 2,
            batch_size = 256,
            inside_weight_const = (1, 1, 1, 1) \<rparr>)"

subsection \<open>numpy primitives\<close>

text \<open>\<open>a.argmax()\<close> of a one-dimensional array: the index of the first occurrence of the
  maximum. The caller guards the empty case, where numpy raises.\<close>

fun argmax_from :: "real list \<Rightarrow> nat \<Rightarrow> nat \<Rightarrow> real \<Rightarrow> nat" where
  "argmax_from [] i best_i best = best_i"
| "argmax_from (x # xs) i best_i best =
     (if best < x then argmax_from xs (Suc i) i x else argmax_from xs (Suc i) best_i best)"

definition argmax_list :: "real list \<Rightarrow> nat" where
  "argmax_list xs = (case xs of [] \<Rightarrow> 0 | x # rest \<Rightarrow> argmax_from rest 1 0 x)"

definition column :: "real list list \<Rightarrow> nat \<Rightarrow> real list" where
  "column ov j = map (\<lambda>row. row ! j) ov"

text \<open>\<open>overlaps.argmax(axis=1)\<close> on shape \<open>(N, M)\<close>: numpy raises ValueError ("attempt to
  get argmax of an empty sequence") when the reduced axis has length 0, that is when
  \<open>M = 0\<close>, whatever \<open>N\<close> is.\<close>

definition argmax_axis1 :: "real list list \<Rightarrow> nat \<Rightarrow> error + nat list" where
  "argmax_axis1 ov m = (if m = 0 then Inl ValueError else Inr (map argmax_list ov))"

text \<open>\<open>overlaps.argmax(axis=0)\<close>: one index per column; ValueError when \<open>N = 0\<close>.\<close>

definition argmax_axis0 :: "real list list \<Rightarrow> nat \<Rightarrow> error + nat list" where
  "argmax_axis0 ov m =
     (if length ov = 0 then Inl ValueError
      else Inr (map (\<lambda>j. argmax_list (column ov j)) [0..<m]))"

text \<open>\<open>np.where(mask)[0]\<close> of a one-dimensional boolean array: the indices that hold.\<close>

definition where1 :: "bool list \<Rightarrow> nat list" where
  "where1 msk = filter (\<lambda>i. msk ! i) [0..<length msk]"

text \<open>\<open>np.where(mask2d)[0]\<close> of a two-dimensional boolean array: the row index of every
  true entry, in row-major order (a row index is repeated once per true entry of the row).\<close>

definition where2_rows :: "bool list list \<Rightarrow> nat list" where
  "where2_rows msk =
     concat (map (\<lambda>i. map (\<lambda>_. i) (filter (\<lambda>b. b) (msk ! i))) [0..<length msk])"

text \<open>\<open>a[mask] = v\<close> with a boolean mask as long as \<open>a\<close>.\<close>

definition assign_mask :: "'a list \<Rightarrow> bool list \<Rightarrow> 'a \<Rightarrow> 'a list" where
  "assign_mask a msk v = map (\<lambda>(x, b). if b then v else x) (zip a msk)"

text \<open>\<open>a[inds] = v\<close> with an integer index array (all indices in range at every call).\<close>

definition assign_inds :: "'a list \<Rightarrow> nat list \<Rightarrow> 'a \<Rightarrow> 'a list" where
  "assign_inds a inds v = fold (\<lambda>i acc. acc[i := v]) inds a"

text \<open>\<open>np.sum(mask)\<close>: the number of true entries.\<close>

definition count_true :: "bool list \<Rightarrow> int" where
  "count_true msk = int (length (filter (\<lambda>b. b) msk))"

subsection \<open>Overlap matcher (lines 145-150)\<close>

text \<open>
  \<^verbatim>\<open>
  argmax_overlaps = overlaps.argmax(axis=1)
  max_overlaps = overlaps[np.arange(len(inds_inside)), argmax_overlaps]
  gt_argmax_overlaps = overlaps.argmax(axis=0)
  gt_max_overlaps = overlaps[gt_argmax_overlaps, np.arange(overlaps.shape[1])]
  gt_argmax_overlaps = np.where(overlaps == gt_max_overlaps)[0]
  \<close>
  The result is the triple (\<open>argmax_overlaps\<close>, \<open>max_overlaps\<close>, final
  \<open>gt_argmax_overlaps\<close>); the last is the spec's \<open>gt_best_anchor\<close>.\<close>

definition overlap_matcher ::
  "real list list \<Rightarrow> nat \<Rightarrow> error + (nat list \<times> real list \<times> nat list)" where
  "overlap_matcher overlaps m =
     bind_e (argmax_axis1 overlaps m) (\<lambda>argmax_overlaps.
       let max_overlaps = map (\<lambda>(row, k). row ! k) (zip overlaps argmax_overlaps) in
       bind_e (argmax_axis0 overlaps m) (\<lambda>gt_argmax0.
         let gt_max_overlaps = map (\<lambda>(i, j). overlaps ! i ! j) (zip gt_argmax0 [0..<m]);
             gt_argmax_overlaps =
               where2_rows (map (\<lambda>row. map (\<lambda>(x, g). x = g) (zip row gt_max_overlaps)) overlaps)
         in Inr (argmax_overlaps, max_overlaps, gt_argmax_overlaps)))"

definition gt_best_anchor :: "real list list \<Rightarrow> nat \<Rightarrow> error + nat list" where
  "gt_best_anchor overlaps m = bind_e (overlap_matcher overlaps m) (\<lambda>(_, _, g). Inr g)"

subsection \<open>Label assigner (lines 137-138 and 152-164)\<close>

text \<open>
  \<^verbatim>\<open>
  labels = np.empty((len(inds_inside), ), dtype=np.float32)
  labels.fill(-1)
  if not self._clobber_positives:
      labels[max_overlaps < self._negative_overlap] = 0
  labels[gt_argmax_overlaps] = 1
  labels[max_overlaps >= self._positive_overlap] = 1
  if self._clobber_positives:
      labels[max_overlaps < self._negative_overlap] = 0
  \<close>\<close>

definition label_assigner :: "anchor_target \<Rightarrow> nat \<Rightarrow> real list \<Rightarrow> nat list \<Rightarrow> int list" where
  "label_assigner self n max_overlaps gt_argmax_overlaps =
     (let labels0 = replicate n (- 1);
          labels1 = (if \<not> clobber_positives self
                     then assign_mask labels0 (map (\<lambda>x. x < negative_overlap self) max_overlaps) 0
                     else labels0);
          labels2 = assign_inds labels1 gt_argmax_overlaps 1;
          labels3 = assign_mask labels2 (map (\<lambda>x. x \<ge> positive_overlap self) max_overlaps) 1;
          labels4 = (if clobber_positives self
                     then assign_mask labels3 (map (\<lambda>x. x < negative_overlap self) max_overlaps) 0
                     else labels3)
      in labels4)"

text \<open>Lines 137-164 from the overlap matrix: the matcher, then the label passes. The label
  array has \<open>len(inds_inside)\<close> entries, which is \<open>overlaps.shape[0]\<close> (\<open>bbox_overlaps\<close>
  returns one row per box). The result keeps \<open>argmax_overlaps\<close>, which the target encoder
  reads, beside the labels.\<close>

definition presample_labels ::
  "anchor_target \<Rightarrow> real list list \<Rightarrow> nat \<Rightarrow> error + (nat list \<times> int list)" where
  "presample_labels self overlaps m =
     bind_e (overlap_matcher overlaps m) (\<lambda>(argmax_overlaps, max_overlaps, gt_argmax_overlaps).
       Inr (argmax_overlaps,
            label_assigner self (length overlaps) max_overlaps gt_argmax_overlaps))"

subsection \<open>Balanced sampler (lines 166-180)\<close>

text \<open>\<open>int(x)\<close> of a float truncates towards zero.\<close>

definition py_int :: "real \<Rightarrow> int" where
  "py_int x = (if 0 \<le> x then \<lfloor>x\<rfloor> else \<lceil>x\<rceil>)"

text \<open>\<open>np.random.choice(a, size=k, replace=False)\<close>: ValueError when more samples are asked
  than \<open>a\<close> holds (or a negative number of them); otherwise \<open>k\<close> distinct elements of \<open>a\<close>,
  chosen by the generator. The generator's state is \<open>g\<close>; the function \<open>draw\<close> stands for
  the draw and returns the new state.\<close>

definition random_choice ::
  "('g \<Rightarrow> nat list \<Rightarrow> nat \<Rightarrow> nat list \<times> 'g) \<Rightarrow> 'g \<Rightarrow> nat list \<Rightarrow> int \<Rightarrow> error + (nat list \<times> 'g)" where
  "random_choice draw g a k =
     (if k < 0 \<or> int (length a) < k then Inl ValueError else Inr (draw g a (nat k)))"

text \<open>What numpy guarantees of a draw without replacement from distinct elements.\<close>

definition valid_draw :: "('g \<Rightarrow> nat list \<Rightarrow> nat \<Rightarrow> nat list \<times> 'g) \<Rightarrow> bool" where
  "valid_draw draw =
     (\<forall>g a k. distinct a \<and> k \<le> length a \<longrightarrow>
        length (fst (draw g a k)) = k \<and> distinct (fst (draw g a k)) \<and>
        set (fst (draw g a k)) \<subseteq> set a)"

text \<open>
  The product on line 167 is a float64 product of a float and an integer: its result is
  rounded, and \<open>int\<close> of it can differ from the truncation of the exact product. The
  function \<open>float_mul\<close> stands for that product.
  \<^verbatim>\<open>
  num_fg = int(self._foreground_fraction * self._batch_size)
  fg_inds = np.where(labels == 1)[0]
  if len(fg_inds) > num_fg:
      disable_inds = np.random.choice(fg_inds, size=(len(fg_inds) - num_fg), replace=False)
      labels[disable_inds] = -1
  num_bg = self._batch_size - np.sum(labels == 1)
  bg_inds = np.where(labels == 0)[0]
  if len(bg_inds) > num_bg:
      disable_inds = np.random.choice(bg_inds, size=(len(bg_inds) - num_bg), replace=False)
      labels[disable_inds] = -1
  \<close>\<close>

definition balanced_sampler ::
  "('g \<Rightarrow> nat list \<Rightarrow> nat \<Rightarrow> nat list \<times> 'g) \<Rightarrow> (real \<Rightarrow> int \<Rightarrow> real)
     \<Rightarrow> anchor_target \<Rightarrow> 'g \<Rightarrow> int list \<Rightarrow> error + (int list \<times> 'g)" where
  "balanced_sampler draw float_mul self g labels =
     (let num_fg = py_int (float_mul (foreground_fraction self) (batch_size self));
          fg_inds = where1 (map (\<lambda>l. l = 1) labels)
      in bind_e
           (if int (length fg_inds) > num_fg
            then bind_e (random_choice draw g fg_inds (int (length fg_inds) - num_fg))
                   (\<lambda>(disable_inds, g'). Inr (assign_inds labels disable_inds (- 1), g'))
            else Inr (labels, g))
           (\<lambda>(labels1, g1).
              let num_bg = batch_size self - count_true (map (\<lambda>l. l = 1) labels1);
                  bg_inds = where1 (map (\<lambda>l. l = 0) labels1)
              in if int (length bg_inds) > num_bg
                 then bind_e (random_choice draw g1 bg_inds (int (length bg_inds) - num_bg))
                        (\<lambda>(disable_inds, g'). Inr (assign_inds labels1 disable_inds (- 1), g'))
                 else Inr (labels1, g1)))"

subsection \<open>Target encoder and weights (lines 182-201, 247-256)\<close>

text \<open>\<open>_compute_targets\<close>: three assertions, then \<open>bbox_transform\<close> on the boxes and the
  first four columns of the matched ground-truth rows. \<open>boxes.shape[1] == 4\<close> holds by the
  type of \<open>boxes\<close>.\<close>

definition compute_targets ::
  "(vec4 list \<Rightarrow> real list list \<Rightarrow> vec4 list) \<Rightarrow> vec4 list \<Rightarrow> real list list
     \<Rightarrow> error + vec4 list" where
  "compute_targets bbox_transform boxes groundtruth_boxes =
     (if length boxes \<noteq> length groundtruth_boxes then Inl AssertionError
      else if \<not> list_all (\<lambda>g. length g = 5) groundtruth_boxes then Inl AssertionError
      else Inr (bbox_transform boxes (map (take 4) groundtruth_boxes)))"

text \<open>
  \<^verbatim>\<open>
  bbox_targets = np.zeros((len(inds_inside), 4), dtype=np.float32)
  bbox_targets = self._compute_targets(anchors, gt_boxes[argmax_overlaps, :])
  \<close>
  The second assignment rebinds the name: the array of zeros is dropped.\<close>

definition bbox_targets_of ::
  "(vec4 list \<Rightarrow> real list list \<Rightarrow> vec4 list) \<Rightarrow> vec4 list \<Rightarrow> real list list \<Rightarrow> nat list
     \<Rightarrow> error + vec4 list" where
  "bbox_targets_of bbox_transform anchors gt_boxes argmax_overlaps =
     (let bbox_targets = replicate (length anchors) ((0, 0, 0, 0) :: vec4);
          bbox_targets = compute_targets bbox_transform anchors
                           (map (\<lambda>k. gt_boxes ! k) argmax_overlaps)
      in bbox_targets)"

text \<open>
  \<^verbatim>\<open>
  bbox_inside_weights = np.zeros((len(inds_inside), 4), dtype=np.float32)
  bbox_inside_weights[labels == 1, :] = np.array(self._bbox_inside_weights)
  \<close>\<close>

definition bbox_inside_weights_of :: "anchor_target \<Rightarrow> int list \<Rightarrow> vec4 list" where
  "bbox_inside_weights_of self labels =
     assign_mask (replicate (length labels) ((0, 0, 0, 0) :: vec4)) (map (\<lambda>l. l = 1) labels)
       (inside_weight_const self)"

text \<open>
  \<^verbatim>\<open>
  bbox_outside_weights = np.zeros((len(inds_inside), 4), dtype=np.float32)
  num_examples = np.sum(labels >= 0) + 1
  positive_weights = np.ones((1, 4)) * 1.0 / num_examples
  negative_weights = np.ones((1, 4)) * 1.0 / num_examples
  bbox_outside_weights[labels == 1, :] = positive_weights
  bbox_outside_weights[labels == 0, :] = negative_weights
  \<close>\<close>

definition num_examples_of :: "int list \<Rightarrow> int" where
  "num_examples_of labels = count_true (map (\<lambda>l. l \<ge> 0) labels) + 1"

definition bbox_outside_weights_of :: "int list \<Rightarrow> vec4 list" where
  "bbox_outside_weights_of labels =
     (let bbox_outside_weights = replicate (length labels) ((0, 0, 0, 0) :: vec4);
          num_examples = num_examples_of labels;
          w = 1 * 1 / real_of_int num_examples;
          positive_weights = (w, w, w, w);
          negative_weights = (w, w, w, w);
          bbox_outside_weights =
            assign_mask bbox_outside_weights (map (\<lambda>l. l = 1) labels) positive_weights;
          bbox_outside_weights =
            assign_mask bbox_outside_weights (map (\<lambda>l. l = 0) labels) negative_weights
      in bbox_outside_weights)"

subsection \<open>Labels, targets and weights of the inside anchors (lines 137-201)\<close>

text \<open>\<open>bbox_overlaps\<close> is the imported IoU function; \<open>overlaps.shape[1]\<close> is the number of
  ground-truth boxes.\<close>

definition inside_anchor_targets ::
  "('g \<Rightarrow> nat list \<Rightarrow> nat \<Rightarrow> nat list \<times> 'g)
     \<Rightarrow> (real \<Rightarrow> int \<Rightarrow> real)
     \<Rightarrow> (vec4 list \<Rightarrow> real list list \<Rightarrow> real list list)
     \<Rightarrow> (vec4 list \<Rightarrow> real list list \<Rightarrow> vec4 list)
     \<Rightarrow> anchor_target \<Rightarrow> 'g \<Rightarrow> vec4 list \<Rightarrow> real list list
     \<Rightarrow> error + ((int list \<times> vec4 list \<times> vec4 list \<times> vec4 list) \<times> 'g)" where
  "inside_anchor_targets draw float_mul bbox_overlaps bbox_transform self g anchors gt_boxes =
     (let overlaps = bbox_overlaps anchors gt_boxes in
      bind_e (presample_labels self overlaps (length gt_boxes)) (\<lambda>(argmax_overlaps, labels).
      bind_e (balanced_sampler draw float_mul self g labels) (\<lambda>(labels, g').
      bind_e (bbox_targets_of bbox_transform anchors gt_boxes argmax_overlaps) (\<lambda>bbox_targets.
        Inr ((labels, bbox_targets,
              bbox_inside_weights_of self labels,
              bbox_outside_weights_of labels), g')))))"

subsection \<open>Name resolution\<close>

text \<open>A name that a function body reads and never assigns is looked up in the module's
  globals (and then among the builtins). The module binds the names of its imports
  (lines 1-7) and of its class (line 10). Names bound in the class body, such as the
  method \<open>_unmap\<close>, are attributes of the class and are not in scope inside a method;
  neither \<open>im_info\<close> nor \<open>_unmap\<close> is a builtin.\<close>

datatype pyobj = PyModule | PyFunction | PyClass | PyArray "real list"

definition module_globals :: "(string \<times> pyobj) list" where
  "module_globals =
     [(''snt'', PyModule), (''tf'', PyModule), (''np'', PyModule),
      (''generate_anchors'', PyFunction), (''bbox_overlaps'', PyFunction),
      (''bbox_transform'', PyFunction), (''AnchorTarget'', PyClass)]"

definition load_global :: "string \<Rightarrow> error + pyobj" where
  "load_global name =
     (case map_of module_globals name of None \<Rightarrow> Inl NameError | Some v \<Rightarrow> Inr v)"

text \<open>\<open>im_info[0]\<close> and \<open>im_info[1]\<close> of the object found.\<close>

definition im_info_hw :: "pyobj \<Rightarrow> error + (real \<times> real)" where
  "im_info_hw obj =
     (case obj of
        PyArray xs \<Rightarrow> (if length xs < 2 then Inl IndexError else Inr (xs ! 0, xs ! 1))
      | _ \<Rightarrow> Inl TypeError)"

subsection \<open>Anchor grid (lines 97-135)\<close>

text \<open>\<open>np.arange(0, n) * self._feat_stride\<close>, where the stride is a Python list: numpy
  broadcasts the two one-dimensional shapes and raises ValueError when they differ and
  neither is 1.\<close>

definition broadcast_mul :: "int list \<Rightarrow> int list \<Rightarrow> error + int list" where
  "broadcast_mul a b =
     (if length a = length b then Inr (map (\<lambda>(x, y). x * y) (zip a b))
      else if length b = 1 then Inr (map (\<lambda>x. x * hd b) a)
      else if length a = 1 then Inr (map (\<lambda>y. hd a * y) b)
      else Inl ValueError)"

definition arange :: "nat \<Rightarrow> int list" where
  "arange n = map int [0..<n]"

definition add4 :: "vec4 \<Rightarrow> vec4 \<Rightarrow> vec4" where
  "add4 a s = (case a of (a1, a2, a3, a4) \<Rightarrow> case s of (s1, s2, s3, s4) \<Rightarrow>
                 (a1 + s1, a2 + s2, a3 + s3, a4 + s4))"

text \<open>\<open>meshgrid\<close>, \<open>vstack\<close> of the four ravelled grids and \<open>transpose\<close>: one row
  \<open>(x, y, x, y)\<close> per cell, rows of the grid first.\<close>

definition grid_shifts :: "int list \<Rightarrow> int list \<Rightarrow> vec4 list" where
  "grid_shifts shift_x shift_y =
     concat (map (\<lambda>y. map (\<lambda>x. (real_of_int x, real_of_int y, real_of_int x, real_of_int y))
                          shift_x) shift_y)"

text \<open>\<open>anchors.reshape((1, A, 4)) + shifts.reshape((1, K, 4)).transpose((1, 0, 2))\<close>,
  reshaped to \<open>(K * A, 4)\<close>: for each shift, every anchor.\<close>

definition shifted_anchors :: "vec4 list \<Rightarrow> vec4 list \<Rightarrow> vec4 list" where
  "shifted_anchors anchors shifts = concat (map (\<lambda>s. map (\<lambda>a. add4 a s) anchors) shifts)"

text \<open>The condition of lines 128-131 on one anchor, with \<open>im_info = (height, width)\<close>.\<close>

definition inside_image :: "real \<Rightarrow> real \<times> real \<Rightarrow> vec4 \<Rightarrow> bool" where
  "inside_image border hw a =
     (case a of (x1, y1, x2, y2) \<Rightarrow>
        x1 \<ge> - border \<and> y1 \<ge> - border \<and> x2 < snd hw + border \<and> y2 < fst hw + border)"

subsection \<open>Unmap and output layout (lines 203-229, 258-273)\<close>

text \<open>\<open>_unmap\<close>: an array of \<open>count\<close> entries filled with \<open>fill\<close>, then \<open>ret[inds] = data\<close>
  (for rows: \<open>ret[inds, :] = data\<close>).\<close>

definition unmap :: "'a list \<Rightarrow> nat \<Rightarrow> nat list \<Rightarrow> 'a \<Rightarrow> 'a list" where
  "unmap data count inds fill =
     fold (\<lambda>(i, d) ret. ret[i := d]) (zip inds data) (replicate count fill)"

definition flat4 :: "vec4 list \<Rightarrow> real list" where
  "flat4 rows = concat (map (\<lambda>(a, b, c, d). [a, b, c, d]) rows)"

text \<open>\<open>x.reshape((1, h, w, c)).transpose(0, 3, 1, 2)\<close> on the flat data of \<open>x\<close>: ValueError
  when the size is not \<open>h * w * c\<close>; otherwise the data in the order channel, row,
  column.\<close>

definition to_channels_first :: "nat \<Rightarrow> nat \<Rightarrow> nat \<Rightarrow> 'a list \<Rightarrow> error + 'a list" where
  "to_channels_first h w c xs =
     (if length xs \<noteq> h * w * c then Inl ValueError
      else Inr (concat (map (\<lambda>k. concat (map (\<lambda>i. map (\<lambda>j. xs ! ((i * w + j) * c + k)) [0..<w])
                                              [0..<h])) [0..<c])))"

subsection \<open>The layer function (lines 92-231)\<close>

text \<open>\<open>_anchor_target_layer_np(self, rpn_cls_score, gt_boxes)\<close>. Of \<open>rpn_cls_score\<close> only
  the shape is read; it is a tensor of rank four. The result is the flat data of the four
  returned arrays, of shapes \<open>(1, 1, A * height, width)\<close> and three times
  \<open>(1, 4 * A, height, width)\<close>.

  Line 130 reads the name \<open>im_info\<close>, which the function never assigns: it is resolved
  in the module's globals, after the two comparisons of lines 128-129 (which cannot
  raise). Lines 203-210 read the name \<open>_unmap\<close> in the same way. Were \<open>_unmap\<close> bound,
  the calls would pass the arguments of the method of lines 258-273, which the model
  continues with.\<close>

definition anchor_target_layer_np ::
  "('g \<Rightarrow> nat list \<Rightarrow> nat \<Rightarrow> nat list \<times> 'g)
     \<Rightarrow> (real \<Rightarrow> int \<Rightarrow> real)
     \<Rightarrow> (vec4 list \<Rightarrow> real list list \<Rightarrow> real list list)
     \<Rightarrow> (vec4 list \<Rightarrow> real list list \<Rightarrow> vec4 list)
     \<Rightarrow> anchor_target \<Rightarrow> 'g \<Rightarrow> nat \<times> nat \<times> nat \<times> nat \<Rightarrow> real list list
     \<Rightarrow> error + ((int list \<times> real list \<times> real list \<times> real list) \<times> 'g)" where
  "anchor_target_layer_np draw float_mul bbox_overlaps bbox_transform self g rpn_cls_score_shape
       gt_boxes =
     (case rpn_cls_score_shape of (_, height, width, _) \<Rightarrow>
      bind_e (broadcast_mul (arange width) (feat_stride self)) (\<lambda>shift_x.
      bind_e (broadcast_mul (arange height) (feat_stride self)) (\<lambda>shift_y.
      let shifts = grid_shifts shift_x shift_y;
          A = num_anchors self;
          K = length shifts;
          all_anchors = shifted_anchors (anchors_cache self) shifts;
          total_anchors = K * A
      in
      bind_e (load_global ''im_info'') (\<lambda>im_info.
      bind_e (im_info_hw im_info) (\<lambda>hw.
      let inds_inside = filter (\<lambda>i. inside_image (allowed_border self) hw (all_anchors ! i))
                          [0..<length all_anchors];
          anchors = map (\<lambda>i. all_anchors ! i) inds_inside
      in
      bind_e (inside_anchor_targets draw float_mul bbox_overlaps bbox_transform self g anchors
                gt_boxes)
        (\<lambda>((labels, bbox_targets, bbox_inside_weights, bbox_outside_weights), g').
      bind_e (load_global ''_unmap'') (\<lambda>_.
      let labels = unmap labels total_anchors inds_inside (- 1);
          bbox_targets = unmap bbox_targets total_anchors inds_inside (0, 0, 0, 0);
          bbox_inside_weights = unmap bbox_inside_weights total_anchors inds_inside (0, 0, 0, 0);
          bbox_outside_weights = unmap bbox_outside_weights total_anchors inds_inside (0, 0, 0, 0)
      in
      bind_e (to_channels_first height width A labels) (\<lambda>labels.
      bind_e (to_channels_first height width (A * 4) (flat4 bbox_targets)) (\<lambda>bbox_targets.
      bind_e (to_channels_first height width (A * 4) (flat4 bbox_inside_weights))
        (\<lambda>bbox_inside_weights.
      bind_e (to_channels_first height width (A * 4) (flat4 bbox_outside_weights))
        (\<lambda>bbox_outside_weights.
        Inr ((labels, bbox_targets, bbox_inside_weights, bbox_outside_weights), g'))))))))))))"

subsection \<open>Notions used in the statements\<close>

text \<open>An overlap matrix with \<open>m\<close> columns: every row has \<open>m\<close> entries.\<close>

definition is_matrix :: "real list list \<Rightarrow> nat \<Rightarrow> bool" where
  "is_matrix ov m = list_all (\<lambda>row. length row = m) ov"

text \<open>The maximum of column \<open>j\<close>.\<close>

definition col_max :: "real list list \<Rightarrow> nat \<Rightarrow> real" where
  "col_max ov j = Max (set (column ov j))"

text \<open>The number of entries of a label array that equal \<open>v\<close>.\<close>

definition count_label :: "int \<Rightarrow> int list \<Rightarrow> int" where
  "count_label v labels = count_true (map (\<lambda>l. l = v) labels)"

subsection \<open>Instances used in the examples\<close>

text \<open>The attributes of an instance built by \<open>__init__\<close> with one scale, one ratio and the
  default stride, when \<open>generate_anchors\<close> yields the single box \<open>(0, 0, 15, 15)\<close>.\<close>

definition single_anchor_instance :: anchor_target where
  "single_anchor_instance =
     \<lparr> anchor_scales = [1], anchor_ratios = [1], anchors_cache = [(0, 0, 15, 15)],
       num_anchors = 1, feat_stride = [16], allowed_border = 0, clobber_positives = False,
       positive_overlap = 7 / 10, negative_overlap = 3 / 10, foreground_fraction = 1 / 2,
       batch_size = 256, inside_weight_const = (1, 1, 1, 1) \<rparr>"

text \<open>One possible outcome of a draw without replacement: the first \<open>k\<close> candidates. The
  generator has no state here.\<close>

definition first_k_draw :: "unit \<Rightarrow> nat list \<Rightarrow> nat \<Rightarrow> nat list \<times> unit" where
  "first_k_draw g a k = (take k a, g)"

text \<open>The float product in the examples: their operands (the fraction 1/2 and a small
  integer) have a product that a float64 holds exactly.\<close>

definition exact_mul :: "real \<Rightarrow> int \<Rightarrow> real" where
  "exact_mul x n = x * real_of_int n"

text \<open>An instance of the encoder parameter for the examples: the differences of
  corresponding corners, which are all zero exactly when the two boxes coincide.\<close>

definition corner_deltas :: "vec4 list \<Rightarrow> real list list \<Rightarrow> vec4 list" where
  "corner_deltas boxes gts =
     map (\<lambda>((x1, y1, x2, y2), g). (g ! 0 - x1, g ! 1 - y1, g ! 2 - x2, g ! 3 - y2)) (zip boxes gts)"

section \<open>Properties\<close>

subsection \<open>Sequencing, masks and index assignment\<close>

lemma bind_e_Inr [simp]: "bind_e (Inr x) f = f x"
  by (simp add: bind_e_def)

lemma bind_e_Inl [simp]: "bind_e (Inl e) f = Inl e"
  by (simp add: bind_e_def)

lemma length_assign_mask: "length (assign_mask a msk v) = min (length a) (length msk)"
  by (simp add: assign_mask_def)

lemma nth_assign_mask:
  "i < length a \<Longrightarrow> i < length msk \<Longrightarrow> assign_mask a msk v ! i = (if msk ! i then v else a ! i)"
  by (simp add: assign_mask_def)

lemma length_assign_inds: "length (assign_inds a inds v) = length a"
  unfolding assign_inds_def by (induction inds arbitrary: a) auto

lemma nth_assign_inds:
  "i < length a \<Longrightarrow> assign_inds a inds v ! i = (if i \<in> set inds then v else a ! i)"
  unfolding assign_inds_def
proof (induction inds arbitrary: a)
  case Nil
  then show ?case by simp
next
  case (Cons k ks)
  then show ?case by (auto simp: nth_list_update)
qed

lemma argmax_from_correct:
  "ys \<noteq> [] \<Longrightarrow> bi < length ys \<Longrightarrow> ys ! bi = b \<Longrightarrow> b = Max (set ys) \<Longrightarrow> i = length ys \<Longrightarrow>
   argmax_from xs i bi b < length (ys @ xs) \<and>
   (ys @ xs) ! argmax_from xs i bi b = Max (set (ys @ xs))"
proof (induction xs arbitrary: ys bi b i)
  case Nil
  then show ?case by simp
next
  case (Cons x xs)
  show ?case
  proof (cases "b < x")
    case True
    have mx: "Max (set (ys @ [x])) = max x b"
      using Cons.prems by simp
    have "max x b = x" using True by (simp add: max_def)
    with mx have m: "Max (set (ys @ [x])) = x" by simp
    have "argmax_from xs (Suc i) i x < length ((ys @ [x]) @ xs) \<and>
          ((ys @ [x]) @ xs) ! argmax_from xs (Suc i) i x = Max (set ((ys @ [x]) @ xs))"
      by (rule Cons.IH) (use Cons.prems m in \<open>simp_all add: nth_append\<close>)
    then show ?thesis using True by simp
  next
    case False
    have mx: "Max (set (ys @ [x])) = max x b"
      using Cons.prems by simp
    have "max x b = b" using False by (simp add: max_def)
    with mx have m: "Max (set (ys @ [x])) = b" by simp
    have "argmax_from xs (Suc i) bi b < length ((ys @ [x]) @ xs) \<and>
          ((ys @ [x]) @ xs) ! argmax_from xs (Suc i) bi b = Max (set ((ys @ [x]) @ xs))"
      by (rule Cons.IH) (use Cons.prems m in \<open>simp_all add: nth_append\<close>)
    then show ?thesis using False by simp
  qed
qed

lemma argmax_list_correct:
  assumes "xs \<noteq> []"
  shows "argmax_list xs < length xs \<and> xs ! argmax_list xs = Max (set xs)"
proof -
  obtain x rest where xs: "xs = x # rest" using assms by (cases xs) auto
  have "argmax_from rest (length [x]) 0 x < length ([x] @ rest) \<and>
        ([x] @ rest) ! argmax_from rest (length [x]) 0 x = Max (set ([x] @ rest))"
    by (rule argmax_from_correct) simp_all
  then show ?thesis by (simp add: xs argmax_list_def)
qed

lemma set_where2_rows:
  "set (where2_rows msk) = {i. i < length msk \<and> True \<in> set (msk ! i)}"
  by (auto simp: where2_rows_def)

subsection \<open>The overlap matcher\<close>

lemma zip_map_self: "map f (zip xs (map g xs)) = map (\<lambda>x. f (x, g x)) xs"
  by (induction xs) auto

lemma zip_map_upt: "map f (zip (map g [0..<m]) [0..<m]) = map (\<lambda>j. f (g j, j)) [0..<m]"
proof -
  have "zip (map g [0..<m]) [0..<m] = map (\<lambda>j. (g j, j)) [0..<m]"
    by (induction m) auto
  then show ?thesis by (simp add: comp_def)
qed

lemma max_overlaps_eq:
  assumes "is_matrix ov m" "0 < m"
  shows "map (\<lambda>(row, k). row ! k) (zip ov (map argmax_list ov)) = map (\<lambda>row. Max (set row)) ov"
proof -
  have "\<And>row. row \<in> set ov \<Longrightarrow> row ! argmax_list row = Max (set row)"
  proof -
    fix row assume "row \<in> set ov"
    then have "row \<noteq> []" using assms by (auto simp: is_matrix_def list_all_iff)
    then show "row ! argmax_list row = Max (set row)" by (simp add: argmax_list_correct)
  qed
  then show ?thesis by (simp add: zip_map_self)
qed

lemma gt_max_overlaps_eq:
  assumes "ov \<noteq> []"
  shows "map (\<lambda>(i, j). ov ! i ! j) (zip (map (\<lambda>j. argmax_list (column ov j)) [0..<m]) [0..<m])
         = map (col_max ov) [0..<m]"
proof -
  have "\<And>j. ov ! argmax_list (column ov j) ! j = col_max ov j"
  proof -
    fix j
    have ne: "column ov j \<noteq> []" using assms by (simp add: column_def)
    have lt: "argmax_list (column ov j) < length ov"
      using argmax_list_correct [OF ne] by (simp add: column_def)
    have "column ov j ! argmax_list (column ov j) = col_max ov j"
      using argmax_list_correct [OF ne] by (simp add: col_max_def)
    then show "ov ! argmax_list (column ov j) ! j = col_max ov j"
      using lt by (simp add: column_def)
  qed
  then show ?thesis by (simp add: zip_map_upt)
qed

lemma tie_row_iff:
  assumes "length row = m"
  shows "True \<in> set (map (\<lambda>(x, g). x = g) (zip row (map f [0..<m]))) \<longleftrightarrow> (\<exists>j<m. row ! j = f j)"
proof
  assume "True \<in> set (map (\<lambda>(x, g). x = g) (zip row (map f [0..<m])))"
  then obtain x g where xg: "(x, g) \<in> set (zip row (map f [0..<m]))" and eq: "x = g"
    by auto
  then obtain j where "j < m" "row ! j = x" "map f [0..<m] ! j = g"
    using assms by (auto simp: set_zip)
  then show "\<exists>j<m. row ! j = f j" using eq by auto
next
  assume "\<exists>j<m. row ! j = f j"
  then obtain j where j: "j < m" "row ! j = f j" by blast
  then have "(row ! j, f j) \<in> set (zip row (map f [0..<m]))"
    using assms by (force simp: set_zip)
  then show "True \<in> set (map (\<lambda>(x, g). x = g) (zip row (map f [0..<m])))"
    using j by force
qed

lemma overlap_matcher_result:
  assumes "is_matrix ov m" "0 < m" "ov \<noteq> []"
  shows "\<exists>g. overlap_matcher ov m = Inr (map argmax_list ov, map (\<lambda>row. Max (set row)) ov, g)
           \<and> set g = {i. i < length ov \<and> (\<exists>j<m. ov ! i ! j = col_max ov j)}"
proof -
  let ?g = "where2_rows (map (\<lambda>row. map (\<lambda>(x, g). x = g) (zip row (map (col_max ov) [0..<m]))) ov)"
  have run: "overlap_matcher ov m = Inr (map argmax_list ov, map (\<lambda>row. Max (set row)) ov, ?g)"
    using assms
    by (simp add: overlap_matcher_def argmax_axis1_def argmax_axis0_def Let_def
        max_overlaps_eq gt_max_overlaps_eq)
  have "set ?g = {i. i < length ov \<and> (\<exists>j<m. ov ! i ! j = col_max ov j)}"
  proof -
    have "\<And>i. i < length ov \<Longrightarrow> length (ov ! i) = m"
      using assms(1) by (simp add: is_matrix_def list_all_length)
    then have "\<And>i. i < length ov \<Longrightarrow>
        True \<in> set (map (\<lambda>(x, g). x = g) (zip (ov ! i) (map (col_max ov) [0..<m])))
        \<longleftrightarrow> (\<exists>j<m. ov ! i ! j = col_max ov j)"
      by (rule tie_row_iff)
    then show ?thesis
      unfolding set_where2_rows by (simp cong: conj_cong)
  qed
  with run show ?thesis by blast
qed

text \<open>
  C2. The anchors selected as best for some ground-truth box are exactly the anchors that
  attain the maximum of some column of the overlap matrix: every anchor tied at a column
  maximum is selected. This holds for every matrix with at least one column and at least
  one row; the selection is then computed without error.\<close>

theorem gt_best_anchor_all_ties:
  assumes "is_matrix ov m" "0 < m" "ov \<noteq> []"
  shows "\<exists>g. gt_best_anchor ov m = Inr g
           \<and> set g = {i. i < length ov \<and> (\<exists>j<m. ov ! i ! j = col_max ov j)}"
  using overlap_matcher_result [OF assms] by (auto simp: gt_best_anchor_def)

text \<open>Two anchors tie at the maximum 1/2 of the first column; the third anchor attains no
  column maximum.\<close>

theorem gt_best_anchor_all_ties_witness:
  "is_matrix [[1/2, 0], [1/2, 1/5], [1/4, 1/10]] 2 \<and> (0::nat) < 2
   \<and> [[1/2, 0], [1/2, 1/5], [1/4, 1/10 :: real]] \<noteq> []
   \<and> (\<exists>g. gt_best_anchor [[1/2, 0], [1/2, 1/5], [1/4, 1/10]] 2 = Inr g
           \<and> set g = {i. i < length [[1/2, 0], [1/2, 1/5], [1/4, 1/10 :: real]]
                        \<and> (\<exists>j<2. [[1/2, 0], [1/2, 1/5], [1/4, 1/10]] ! i ! j
                                     = col_max [[1/2, 0], [1/2, 1/5], [1/4, 1/10]] j)})"
  using gt_best_anchor_all_ties [of "[[1/2, 0], [1/2, 1/5], [1/4, 1/10]]" 2]
  by (simp add: is_matrix_def)

text \<open>With no inside anchor (a matrix of shape \<open>(0, 1)\<close>) the selection is not computed:
  \<open>overlaps.argmax(axis=0)\<close> raises.\<close>

theorem gt_best_anchor_no_rows_counterexample:
  "gt_best_anchor [] 1 = Inl ValueError"
  by (simp add: gt_best_anchor_def overlap_matcher_def argmax_axis1_def argmax_axis0_def)

subsection \<open>The label passes\<close>

lemma overlap_matcher_shape:
  assumes "overlap_matcher ov m = Inr (am, mx, g)"
  shows "length mx = length ov \<and> (\<forall>k\<in>set g. k < length ov) \<and> 0 < m \<and> ov \<noteq> []"
proof -
  have m: "0 < m" using assms
    by (cases "m = 0") (simp_all add: overlap_matcher_def argmax_axis1_def)
  have ne: "ov \<noteq> []" using assms m
    by (cases "ov = []") (simp_all add: overlap_matcher_def argmax_axis1_def argmax_axis0_def)
  have "length mx = length ov \<and> (\<forall>k\<in>set g. k < length ov)"
    using assms m ne
    by (auto simp: overlap_matcher_def argmax_axis1_def argmax_axis0_def Let_def set_where2_rows)
  with m ne show ?thesis by simp
qed

lemma label_assigner_nth:
  assumes "length mx = n" "i < n"
  shows "label_assigner self n mx g ! i =
     (if clobber_positives self
      then (if mx ! i < negative_overlap self then 0
            else if mx ! i \<ge> positive_overlap self \<or> i \<in> set g then 1 else - 1)
      else (if mx ! i \<ge> positive_overlap self \<or> i \<in> set g then 1
            else if mx ! i < negative_overlap self then 0 else - 1))"
  using assms
  by (simp add: label_assigner_def Let_def nth_assign_mask nth_assign_inds
      length_assign_mask length_assign_inds)

lemma length_label_assigner:
  "length mx = n \<Longrightarrow> length (label_assigner self n mx g) = n"
  by (simp add: label_assigner_def Let_def length_assign_mask length_assign_inds)

lemma matcher_example:
  "overlap_matcher [[1/10], [1/5]] 1 = Inr ([0, 0], [1/10, 1/5], [1])"
  by (simp add: overlap_matcher_def argmax_axis1_def argmax_axis0_def argmax_list_def
      column_def where2_rows_def Let_def)

text \<open>
  C1. The order of the label passes. Let the matcher succeed and let anchor \<open>i\<close> be among
  the anchors selected as best for some ground-truth box. When \<open>clobber_positives\<close> is
  false its label before sampling is 1, whatever its maximal overlap (the background pass
  has run before the forced positive pass). When \<open>clobber_positives\<close> is true and its
  maximal overlap is below \<open>negative_overlap\<close>, its label before sampling is 0 (the
  background pass runs last).\<close>

theorem forced_positive_pass_order:
  assumes "overlap_matcher ov m = Inr (am, mx, g)" "i \<in> set g"
  shows "\<exists>labels. presample_labels self ov m = Inr (am, labels)
           \<and> length labels = length ov
           \<and> (\<not> clobber_positives self \<longrightarrow> labels ! i = 1)
           \<and> (clobber_positives self \<and> mx ! i < negative_overlap self \<longrightarrow> labels ! i = 0)"
proof -
  have sh: "length mx = length ov" "i < length ov"
    using overlap_matcher_shape [OF assms(1)] assms(2) by auto
  have run: "presample_labels self ov m = Inr (am, label_assigner self (length ov) mx g)"
    using assms(1) by (simp add: presample_labels_def)
  show ?thesis
    using run sh assms(2) by (simp add: label_assigner_nth length_label_assigner)
qed

theorem forced_positive_pass_order_witness:
  "overlap_matcher [[1/10], [1/5]] 1 = Inr ([0, 0], [1/10, 1/5], [1]) \<and> (1::nat) \<in> set [1]
   \<and> (\<exists>labels. presample_labels single_anchor_instance [[1/10], [1/5]] 1 = Inr ([0, 0], labels)
         \<and> labels ! 1 = 1)
   \<and> (\<exists>labels. presample_labels (single_anchor_instance\<lparr>clobber_positives := True\<rparr>)
                   [[1/10], [1/5]] 1 = Inr ([0, 0], labels)
         \<and> labels ! 1 = 0)"
proof -
  have mem: "(1::nat) \<in> set [1]" by simp
  have nc: "\<not> clobber_positives single_anchor_instance"
    by (simp add: single_anchor_instance_def)
  have cl: "clobber_positives (single_anchor_instance\<lparr>clobber_positives := True\<rparr>)
            \<and> [1/10, 1/5] ! 1 < negative_overlap (single_anchor_instance\<lparr>clobber_positives := True\<rparr>)"
    by (simp add: single_anchor_instance_def)
  have a: "\<exists>labels. presample_labels single_anchor_instance [[1/10], [1/5]] 1 = Inr ([0, 0], labels)
         \<and> labels ! 1 = 1"
    using forced_positive_pass_order [OF matcher_example mem, of single_anchor_instance] nc
    by blast
  have b: "\<exists>labels. presample_labels (single_anchor_instance\<lparr>clobber_positives := True\<rparr>)
                   [[1/10], [1/5]] 1 = Inr ([0, 0], labels)
         \<and> labels ! 1 = 0"
    using forced_positive_pass_order [OF matcher_example mem,
        of "single_anchor_instance\<lparr>clobber_positives := True\<rparr>"] cl
    by blast
  from matcher_example mem a b show ?thesis by blast
qed

lemma col_max_zero:
  assumes "ov \<noteq> []" "\<forall>k<length ov. ov ! k ! j = 0"
  shows "col_max ov j = 0"
proof -
  have all0: "\<forall>x\<in>set (column ov j). x = 0"
    using assms(2) by (auto simp: column_def in_set_conv_nth)
  obtain x where x: "x \<in> set (column ov j)"
    using assms(1) by (cases ov) (auto simp: column_def)
  with all0 have "0 \<in> set (column ov j)" by auto
  with all0 have "set (column ov j) = {0}" by auto
  then show ?thesis by (simp add: col_max_def)
qed

text \<open>
  C6. If some ground-truth column of the overlap matrix is zero at every inside anchor,
  every inside anchor attains that column's maximum and is selected as a best anchor; with
  \<open>clobber_positives\<close> false every inside anchor has label 1 before sampling.\<close>

theorem zero_column_all_positive:
  assumes "is_matrix ov m" "j < m" "\<forall>k<length ov. ov ! k ! j = 0"
    "\<not> clobber_positives self" "i < length ov"
  shows "\<exists>am mx g labels. overlap_matcher ov m = Inr (am, mx, g) \<and> i \<in> set g
           \<and> presample_labels self ov m = Inr (am, labels) \<and> labels ! i = 1"
proof -
  have ne: "ov \<noteq> []" using assms(5) by auto
  have m: "0 < m" using assms(2) by simp
  obtain g where run: "overlap_matcher ov m = Inr (map argmax_list ov, map (\<lambda>row. Max (set row)) ov, g)"
    and g: "set g = {i. i < length ov \<and> (\<exists>j<m. ov ! i ! j = col_max ov j)}"
    using overlap_matcher_result [OF assms(1) m ne] by blast
  have "ov ! i ! j = col_max ov j"
    using assms(3,5) col_max_zero [OF ne assms(3)] by simp
  then have mem: "i \<in> set g" using g assms(2,5) by blast
  let ?labels = "label_assigner self (length ov) (map (\<lambda>row. Max (set row)) ov) g"
  have "presample_labels self ov m = Inr (map argmax_list ov, ?labels)"
    using run by (simp add: presample_labels_def)
  moreover have "?labels ! i = 1"
    using assms(4,5) mem by (simp add: label_assigner_nth)
  ultimately show ?thesis using run mem by blast
qed

theorem zero_column_all_positive_witness:
  "is_matrix [[0, 1/2], [0, 1/10]] 2 \<and> (0::nat) < 2
   \<and> column [[0, 1/2], [0, 1/10]] 0 = [0, 0]
   \<and> \<not> clobber_positives single_anchor_instance
   \<and> (1::nat) < length [[0, 1/2], [0, 1/10 :: real]]
   \<and> (\<exists>am mx g labels. overlap_matcher [[0, 1/2], [0, 1/10]] 2 = Inr (am, mx, g) \<and> 1 \<in> set g
          \<and> presample_labels single_anchor_instance [[0, 1/2], [0, 1/10]] 2 = Inr (am, labels)
          \<and> labels ! 1 = 1)"
proof -
  have h1: "is_matrix [[0, 1/2], [0, 1/10]] 2" by (simp add: is_matrix_def)
  have h2: "(0::nat) < 2" by simp
  have h3: "\<forall>k<length [[0, 1/2], [0, 1/10 :: real]]. [[0, 1/2], [0, 1/10]] ! k ! 0 = (0::real)"
    by (simp add: nth_Cons split: nat.split)
  have h4: "\<not> clobber_positives single_anchor_instance" by (simp add: single_anchor_instance_def)
  have h5: "(1::nat) < length [[0, 1/2], [0, 1/10 :: real]]" by simp
  show ?thesis
    using zero_column_all_positive [OF h1 h2 h3 h4 h5] h1 h4 by (simp add: column_def)
qed

text \<open>
  C5. With an empty ground-truth set (\<open>M = 0\<close>) the overlap matrix has no column, and
  \<open>overlaps.argmax(axis=1)\<close> on line 145 raises ValueError: no maximal overlap, no best
  anchor and no label is computed, for any number of inside anchors.\<close>

theorem no_ground_truth_fails:
  "overlap_matcher ov 0 = Inl ValueError
   \<and> presample_labels self ov 0 = Inl ValueError
   \<and> inside_anchor_targets draw float_mul bbox_overlaps bbox_transform self g anchors [] = Inl ValueError"
  by (simp add: overlap_matcher_def argmax_axis1_def presample_labels_def
      inside_anchor_targets_def Let_def)

text \<open>Two inside anchors and no ground-truth box: the matcher raises.\<close>

theorem no_ground_truth_counterexample:
  "overlap_matcher [[], []] 0 = Inl ValueError"
  by (simp add: overlap_matcher_def argmax_axis1_def)

subsection \<open>The balanced sampler\<close>

lemma set_where1: "set (where1 (map (\<lambda>l. l = v) labels)) = {i. i < length labels \<and> labels ! i = v}"
  by (auto simp: where1_def)

lemma distinct_where1: "distinct (where1 msk)"
  by (simp add: where1_def)

lemma count_label_card:
  "count_label v labels = int (card {i. i < length labels \<and> labels ! i = v})"
  by (simp add: count_label_def count_true_def filter_map comp_def length_filter_conv_card)

lemma length_where1: "int (length (where1 (map (\<lambda>l. l = v) labels))) = count_label v labels"
proof -
  have "length (where1 (map (\<lambda>l. l = v) labels)) = card (set (where1 (map (\<lambda>l. l = v) labels)))"
    by (simp add: distinct_card distinct_where1)
  then show ?thesis by (simp add: set_where1 count_label_card)
qed

lemma count_label_disable:
  assumes "distinct r" "set r \<subseteq> {i. i < length labels \<and> labels ! i = v}" "v \<noteq> - 1"
  shows "count_label v (assign_inds labels r (- 1)) = count_label v labels - int (length r)"
proof -
  let ?S = "{i. i < length labels \<and> labels ! i = v}"
  have fin: "finite ?S" by simp
  have "{i. i < length (assign_inds labels r (- 1)) \<and> assign_inds labels r (- 1) ! i = v}
        = ?S - set r"
    using assms(3) by (auto simp: length_assign_inds nth_assign_inds)
  then have "count_label v (assign_inds labels r (- 1)) = int (card (?S - set r))"
    by (simp add: count_label_card)
  also have "card (?S - set r) = card ?S - card (set r)"
    using assms(2) by (simp add: card_Diff_subset)
  also have "card (set r) = length r" using assms(1) by (simp add: distinct_card)
  finally have "count_label v (assign_inds labels r (- 1)) = int (card ?S - length r)" .
  moreover have "length r \<le> card ?S"
    using assms(1,2) fin by (metis card_mono distinct_card)
  ultimately show ?thesis by (simp add: count_label_card of_nat_diff)
qed

lemma count_label_other:
  assumes "set r \<subseteq> {i. i < length labels \<and> labels ! i = v}" "w \<noteq> v" "w \<noteq> - 1"
  shows "count_label w (assign_inds labels r (- 1)) = count_label w labels"
proof -
  have "{i. i < length (assign_inds labels r (- 1)) \<and> assign_inds labels r (- 1) ! i = w}
        = {i. i < length labels \<and> labels ! i = w}"
    using assms by (auto simp: length_assign_inds nth_assign_inds)
  then show ?thesis by (simp add: count_label_card)
qed

lemma disable_excess:
  assumes vd: "valid_draw draw" and v: "v \<noteq> - 1" and t: "0 \<le> target"
  shows "\<exists>labels' g'.
           (if int (length (where1 (map (\<lambda>l. l = v) labels))) > target
            then bind_e (random_choice draw g (where1 (map (\<lambda>l. l = v) labels))
                           (int (length (where1 (map (\<lambda>l. l = v) labels))) - target))
                   (\<lambda>(disable_inds, g'). Inr (assign_inds labels disable_inds (- 1), g'))
            else Inr (labels, g)) = Inr (labels', g')
         \<and> length labels' = length labels
         \<and> count_label v labels' = min (count_label v labels) target
         \<and> (\<forall>w. w \<noteq> v \<and> w \<noteq> - 1 \<longrightarrow> count_label w labels' = count_label w labels)
         \<and> (\<forall>i<length labels. labels' ! i = labels ! i \<or> (labels ! i = v \<and> labels' ! i = - 1))"
proof (cases "count_label v labels > target")
  case False
  then show ?thesis by (simp add: length_where1)
next
  case True
  let ?pop = "where1 (map (\<lambda>l. l = v) labels)"
  let ?k = "nat (count_label v labels - target)"
  obtain r g1 where dr: "draw g ?pop ?k = (r, g1)" by (cases "draw g ?pop ?k")
  have k_le: "?k \<le> length ?pop"
    using t True length_where1 [of v labels] by linarith
  have "distinct ?pop" by (rule distinct_where1)
  with vd k_le have "length (fst (draw g ?pop ?k)) = ?k \<and> distinct (fst (draw g ?pop ?k))
      \<and> set (fst (draw g ?pop ?k)) \<subseteq> set ?pop"
    unfolding valid_draw_def by blast
  then have r: "length r = ?k" "distinct r" "set r \<subseteq> {i. i < length labels \<and> labels ! i = v}"
    using dr by (simp_all add: set_where1)
  have rc: "random_choice draw g ?pop (count_label v labels - target) = Inr (r, g1)"
    using True t dr length_where1 [of v labels] by (simp add: random_choice_def)
  have run: "(if int (length ?pop) > target
            then bind_e (random_choice draw g ?pop (int (length ?pop) - target))
                   (\<lambda>(disable_inds, g'). Inr (assign_inds labels disable_inds (- 1), g'))
            else Inr (labels, g)) = Inr (assign_inds labels r (- 1), g1)"
    using True rc by (simp add: length_where1)
  have c: "count_label v (assign_inds labels r (- 1)) = min (count_label v labels) target"
    using count_label_disable [OF r(2) r(3) v] r(1) True by simp
  have o: "\<forall>w. w \<noteq> v \<and> w \<noteq> - 1 \<longrightarrow>
             count_label w (assign_inds labels r (- 1)) = count_label w labels"
    using count_label_other [OF r(3)] by blast
  have p: "\<forall>i<length labels. assign_inds labels r (- 1) ! i = labels ! i
             \<or> (labels ! i = v \<and> assign_inds labels r (- 1) ! i = - 1)"
    using r(3) by (auto simp: nth_assign_inds)
  from run c o p show ?thesis by (simp add: length_assign_inds)
qed

lemma py_int_nonneg: "0 \<le> x \<Longrightarrow> py_int x = \<lfloor>x\<rfloor>"
  by (simp add: py_int_def)

lemma valid_first_k_draw: "valid_draw first_k_draw"
  by (auto simp: valid_draw_def first_k_draw_def dest: in_set_takeD)

text \<open>
  C3. After the balanced sampler has run: at most \<open>floor(foreground_fraction * batch_size)\<close>
  anchors have label 1, the product being the one line 167 computes; the number of anchors
  with label 0 is at most \<open>batch_size\<close> minus the number of label-1 anchors after their
  subsampling; hence at most \<open>batch_size\<close> anchors have a label in \<open>{0, 1}\<close>. The sampler
  does not fail, and a shortfall is not filled: each count is the minimum of what was there
  and its target, and every label either keeps its value or becomes -1. Where the computed
  product is the exact one, the first bound is the floor of the exact product.

  The computed product lies between 0 and the batch size, as it does for a fraction
  between 0 and 1 and a batch size that is not negative (rounding is monotone and the
  batch size is itself a float64); a draw returns distinct elements of its population, as
  numpy's does.\<close>

theorem balanced_sampler_bounds:
  assumes vd: "valid_draw draw"
    and p0: "0 \<le> float_mul (foreground_fraction self) (batch_size self)"
    and pb: "float_mul (foreground_fraction self) (batch_size self) \<le> real_of_int (batch_size self)"
  shows "\<exists>labels' g'. balanced_sampler draw float_mul self g labels = Inr (labels', g')
       \<and> length labels' = length labels
       \<and> count_label 1 labels' \<le> \<lfloor>float_mul (foreground_fraction self) (batch_size self)\<rfloor>
       \<and> count_label 0 labels' \<le> batch_size self - count_label 1 labels'
       \<and> count_label 1 labels' + count_label 0 labels' \<le> batch_size self
       \<and> count_label 1 labels' =
           min (count_label 1 labels) \<lfloor>float_mul (foreground_fraction self) (batch_size self)\<rfloor>
       \<and> count_label 0 labels' =
           min (count_label 0 labels) (batch_size self - count_label 1 labels')
       \<and> (\<forall>i<length labels. labels' ! i = labels ! i \<or> labels' ! i = - 1)
       \<and> (float_mul (foreground_fraction self) (batch_size self)
              = foreground_fraction self * real_of_int (batch_size self) \<longrightarrow>
            count_label 1 labels' \<le> \<lfloor>foreground_fraction self * real_of_int (batch_size self)\<rfloor>)"
proof -
  let ?x = "float_mul (foreground_fraction self) (batch_size self)"
  let ?nf = "\<lfloor>?x\<rfloor>"
  have nf_le: "?nf \<le> batch_size self" using pb by linarith
  have nf0: "0 \<le> ?nf" using p0 by simp
  have pi: "py_int ?x = ?nf" using p0 by (rule py_int_nonneg)
  obtain l1 g1 where s1:
    "(if int (length (where1 (map (\<lambda>l. l = 1) labels))) > ?nf
      then bind_e (random_choice draw g (where1 (map (\<lambda>l. l = 1) labels))
                     (int (length (where1 (map (\<lambda>l. l = 1) labels))) - ?nf))
             (\<lambda>(disable_inds, g'). Inr (assign_inds labels disable_inds (- 1), g'))
      else Inr (labels, g)) = Inr (l1, g1)"
    and len1: "length l1 = length labels"
    and c1: "count_label 1 l1 = min (count_label 1 labels) ?nf"
    and o1: "\<forall>w. w \<noteq> 1 \<and> w \<noteq> - 1 \<longrightarrow> count_label w l1 = count_label w labels"
    and p1: "\<forall>i<length labels. l1 ! i = labels ! i \<or> (labels ! i = 1 \<and> l1 ! i = - 1)"
    using disable_excess [OF vd _ nf0, of 1 labels g] by auto
  let ?nb = "batch_size self - count_label 1 l1"
  have nb0: "0 \<le> ?nb" using c1 nf_le by simp
  obtain l2 g2 where s2:
    "(if int (length (where1 (map (\<lambda>l. l = 0) l1))) > ?nb
      then bind_e (random_choice draw g1 (where1 (map (\<lambda>l. l = 0) l1))
                     (int (length (where1 (map (\<lambda>l. l = 0) l1))) - ?nb))
             (\<lambda>(disable_inds, g'). Inr (assign_inds l1 disable_inds (- 1), g'))
      else Inr (l1, g1)) = Inr (l2, g2)"
    and len2: "length l2 = length l1"
    and c2: "count_label 0 l2 = min (count_label 0 l1) ?nb"
    and o2: "\<forall>w. w \<noteq> 0 \<and> w \<noteq> - 1 \<longrightarrow> count_label w l2 = count_label w l1"
    and p2: "\<forall>i<length l1. l2 ! i = l1 ! i \<or> (l1 ! i = 0 \<and> l2 ! i = - 1)"
    using disable_excess [OF vd _ nb0, of 0 l1 g1] by auto
  have eq: "\<And>ls. count_true (map (\<lambda>l. l = 1) ls) = count_label 1 ls"
    by (simp add: count_label_def)
  have "balanced_sampler draw float_mul self g labels =
        bind_e (Inr (l1, g1)) (\<lambda>(labels1, g1).
          if int (length (where1 (map (\<lambda>l. l = 0) labels1))) > batch_size self - count_label 1 labels1
          then bind_e (random_choice draw g1 (where1 (map (\<lambda>l. l = 0) labels1))
                 (int (length (where1 (map (\<lambda>l. l = 0) labels1))) - (batch_size self - count_label 1 labels1)))
                 (\<lambda>(disable_inds, g'). Inr (assign_inds labels1 disable_inds (- 1), g'))
          else Inr (labels1, g1))"
    by (simp only: balanced_sampler_def Let_def pi eq s1)
  also have "\<dots> = Inr (l2, g2)"
    using s2 by simp
  finally have run: "balanced_sampler draw float_mul self g labels = Inr (l2, g2)" .
  have k1: "count_label 1 l2 = count_label 1 l1" using o2 by simp
  have k0: "count_label 0 l1 = count_label 0 labels" using o1 by simp
  have per: "\<forall>i<length labels. l2 ! i = labels ! i \<or> l2 ! i = - 1"
    using p1 p2 len1 by metis
  have main: "length l2 = length labels
       \<and> count_label 1 l2 \<le> ?nf
       \<and> count_label 0 l2 \<le> batch_size self - count_label 1 l2
       \<and> count_label 1 l2 + count_label 0 l2 \<le> batch_size self
       \<and> count_label 1 l2 = min (count_label 1 labels) ?nf
       \<and> count_label 0 l2 = min (count_label 0 labels) (batch_size self - count_label 1 l2)"
    using len1 len2 c1 c2 k1 k0 nf_le by simp
  have exact: "?x = foreground_fraction self * real_of_int (batch_size self) \<longrightarrow>
       count_label 1 l2 \<le> \<lfloor>foreground_fraction self * real_of_int (batch_size self)\<rfloor>"
    using main by auto
  from run main per exact show ?thesis by blast
qed

text \<open>The fraction 1/2 and batch size 2 (the product 1 is exact), on two positives, two
  negatives and one ignored anchor.\<close>

theorem balanced_sampler_bounds_witness:
  "valid_draw first_k_draw
   \<and> 0 \<le> exact_mul (foreground_fraction (single_anchor_instance\<lparr>batch_size := 2\<rparr>))
            (batch_size (single_anchor_instance\<lparr>batch_size := 2\<rparr>))
   \<and> exact_mul (foreground_fraction (single_anchor_instance\<lparr>batch_size := 2\<rparr>))
        (batch_size (single_anchor_instance\<lparr>batch_size := 2\<rparr>))
       \<le> real_of_int (batch_size (single_anchor_instance\<lparr>batch_size := 2\<rparr>))
   \<and> exact_mul (foreground_fraction (single_anchor_instance\<lparr>batch_size := 2\<rparr>))
        (batch_size (single_anchor_instance\<lparr>batch_size := 2\<rparr>)) = 1
   \<and> (\<exists>labels' g'. balanced_sampler first_k_draw exact_mul
                        (single_anchor_instance\<lparr>batch_size := 2\<rparr>) ()
                        [1, 1, 0, 0, - 1] = Inr (labels', g')
         \<and> count_label 1 labels' \<le> 1
         \<and> count_label 0 labels' \<le> 2 - count_label 1 labels'
         \<and> count_label 1 labels' + count_label 0 labels' \<le> 2)"
proof -
  let ?s = "single_anchor_instance\<lparr>batch_size := 2\<rparr>"
  have v: "exact_mul (foreground_fraction ?s) (batch_size ?s) = 1" and b: "batch_size ?s = 2"
    by (simp_all add: single_anchor_instance_def exact_mul_def)
  have h: "0 \<le> exact_mul (foreground_fraction ?s) (batch_size ?s)"
    "exact_mul (foreground_fraction ?s) (batch_size ?s) \<le> real_of_int (batch_size ?s)"
    by (simp_all add: single_anchor_instance_def exact_mul_def)
  obtain l g' where run: "balanced_sampler first_k_draw exact_mul ?s () [1, 1, 0, 0, - 1] = Inr (l, g')"
    and b1: "count_label 1 l \<le> \<lfloor>exact_mul (foreground_fraction ?s) (batch_size ?s)\<rfloor>"
    and b2: "count_label 0 l \<le> batch_size ?s - count_label 1 l"
    and b3: "count_label 1 l + count_label 0 l \<le> batch_size ?s"
    using balanced_sampler_bounds [of first_k_draw exact_mul ?s "()" "[1, 1, 0, 0, - 1]",
        OF valid_first_k_draw h]
    by blast
  have "count_label 1 l \<le> 1" using b1 v by simp
  moreover have "count_label 0 l \<le> 2 - count_label 1 l" using b2 b by simp
  moreover have "count_label 1 l + count_label 0 l \<le> 2" using b3 b by simp
  ultimately show ?thesis using run valid_first_k_draw h v by blast
qed

subsection \<open>Weights and regression targets\<close>

text \<open>
  C4. With \<open>num_examples\<close> the number of inside anchors whose final label is at least 0,
  plus one: every inside anchor with label 1 or 0 has outside weight \<open>1 / num_examples\<close> on
  each of its four components, the same for positives and negatives, and every inside
  anchor with label -1 has outside weight zero on all four. The quotient is the exact
  one.\<close>

theorem outside_weights_uniform:
  assumes "i < length labels"
  shows "(labels ! i = 1 \<or> labels ! i = 0 \<longrightarrow>
            bbox_outside_weights_of labels ! i =
              (1 / (real (length (filter (\<lambda>l. l \<ge> 0) labels)) + 1),
               1 / (real (length (filter (\<lambda>l. l \<ge> 0) labels)) + 1),
               1 / (real (length (filter (\<lambda>l. l \<ge> 0) labels)) + 1),
               1 / (real (length (filter (\<lambda>l. l \<ge> 0) labels)) + 1)))
       \<and> (labels ! i = - 1 \<longrightarrow> bbox_outside_weights_of labels ! i = (0, 0, 0, 0))
       \<and> num_examples_of labels = int (length (filter (\<lambda>l. l \<ge> 0) labels)) + 1"
proof -
  have n: "num_examples_of labels = int (length (filter (\<lambda>l. l \<ge> 0) labels)) + 1"
    by (simp add: num_examples_of_def count_true_def filter_map comp_def)
  have r: "real_of_int (num_examples_of labels) = real (length (filter (\<lambda>l. l \<ge> 0) labels)) + 1"
    by (simp add: n)
  show ?thesis
    using assms n
    by (simp add: bbox_outside_weights_of_def Let_def nth_assign_mask length_assign_mask r)
qed

theorem outside_weights_uniform_witness:
  "(2::nat) < length [1, - 1, 0, 0 :: int]
   \<and> bbox_outside_weights_of [1, - 1, 0, 0] ! 0 = (1/4, 1/4, 1/4, 1/4)
   \<and> bbox_outside_weights_of [1, - 1, 0, 0] ! 2 = (1/4, 1/4, 1/4, 1/4)
   \<and> bbox_outside_weights_of [1, - 1, 0, 0] ! 1 = (0, 0, 0, 0)
   \<and> num_examples_of [1, - 1, 0, 0] = 4"
  using outside_weights_uniform [of 0 "[1, - 1, 0, 0]"]
    outside_weights_uniform [of 1 "[1, - 1, 0, 0]"]
    outside_weights_uniform [of 2 "[1, - 1, 0, 0]"]
  by simp

lemma nth_inside_weights:
  "i < length labels \<Longrightarrow>
   bbox_inside_weights_of self labels ! i =
     (if labels ! i = 1 then inside_weight_const self else (0, 0, 0, 0))"
  by (simp add: bbox_inside_weights_of_def nth_assign_mask)

lemma example_run:
  "inside_anchor_targets first_k_draw exact_mul (\<lambda>a g. [[1], [0]]) corner_deltas single_anchor_instance ()
     [(0, 0, 15, 15), (100, 100, 115, 115)] [[0, 0, 15, 15, 1]]
   = Inr (([1, 0],
           [(0, 0, 0, 0), (- 100, - 100, - 100, - 100)],
           [(1, 1, 1, 1), (0, 0, 0, 0)],
           [(1/3, 1/3, 1/3, 1/3), (1/3, 1/3, 1/3, 1/3)]), ())"
  by (simp add: inside_anchor_targets_def presample_labels_def overlap_matcher_def
      argmax_axis1_def argmax_axis0_def argmax_list_def column_def where2_rows_def
      label_assigner_def assign_mask_def assign_inds_def balanced_sampler_def py_int_def
      where1_def count_true_def random_choice_def first_k_draw_def exact_mul_def
      bbox_targets_of_def
      compute_targets_def corner_deltas_def bbox_inside_weights_of_def
      bbox_outside_weights_of_def num_examples_of_def single_anchor_instance_def Let_def)

text \<open>
  C8. The regression targets do not depend on the labels: whenever the labels, targets and
  weights of the inside anchors are computed, the targets are what \<open>bbox_transform\<close>
  returns for the inside anchors and their matched ground-truth boxes (the array of zeros
  of line 182 is replaced on line 183), for every anchor whatever its final label. What is
  zero for every inside anchor whose final label is not 1 is its inside weight.\<close>

theorem regression_targets_ignore_labels:
  assumes "inside_anchor_targets draw float_mul bbox_overlaps bbox_transform self g anchors gt_boxes
             = Inr ((labels, targets, iw, ow), g')"
  shows "\<exists>am l0. presample_labels self (bbox_overlaps anchors gt_boxes) (length gt_boxes) = Inr (am, l0)
           \<and> targets = bbox_transform anchors (map (take 4) (map (\<lambda>k. gt_boxes ! k) am))
           \<and> (\<forall>i<length labels. labels ! i \<noteq> 1 \<longrightarrow> iw ! i = (0, 0, 0, 0))"
proof -
  let ?ov = "bbox_overlaps anchors gt_boxes"
  obtain am l0 where p: "presample_labels self ?ov (length gt_boxes) = Inr (am, l0)"
    using assms
    by (cases "presample_labels self ?ov (length gt_boxes)")
       (auto simp: inside_anchor_targets_def Let_def)
  obtain l1 g1 where s: "balanced_sampler draw float_mul self g l0 = Inr (l1, g1)"
    using assms p
    by (cases "balanced_sampler draw float_mul self g l0")
       (auto simp: inside_anchor_targets_def Let_def)
  obtain t where t: "bbox_targets_of bbox_transform anchors gt_boxes am = Inr t"
    using assms p s
    by (cases "bbox_targets_of bbox_transform anchors gt_boxes am")
       (auto simp: inside_anchor_targets_def Let_def)
  have out: "labels = l1" "targets = t" "iw = bbox_inside_weights_of self l1"
    using assms p s t by (auto simp: inside_anchor_targets_def Let_def)
  have "t = bbox_transform anchors (map (take 4) (map (\<lambda>k. gt_boxes ! k) am))"
    using t by (simp add: bbox_targets_of_def compute_targets_def Let_def split: if_splits)
  moreover have "\<forall>i<length labels. labels ! i \<noteq> 1 \<longrightarrow> iw ! i = (0, 0, 0, 0)"
    using out by (simp add: nth_inside_weights)
  ultimately show ?thesis using p out by blast
qed

theorem regression_targets_ignore_labels_witness:
  "inside_anchor_targets first_k_draw exact_mul (\<lambda>a g. [[1], [0]]) corner_deltas single_anchor_instance ()
     [(0, 0, 15, 15), (100, 100, 115, 115)] [[0, 0, 15, 15, 1]]
   = Inr (([1, 0],
           [(0, 0, 0, 0), (- 100, - 100, - 100, - 100)],
           [(1, 1, 1, 1), (0, 0, 0, 0)],
           [(1/3, 1/3, 1/3, 1/3), (1/3, 1/3, 1/3, 1/3)]), ())
   \<and> (\<exists>am l0. presample_labels single_anchor_instance [[1], [0]] (length [[0, 0, 15, 15, 1 :: real]])
                   = Inr (am, l0)
          \<and> [(0, 0, 0, 0), (- 100, - 100, - 100, - 100)]
             = corner_deltas [(0, 0, 15, 15), (100, 100, 115, 115)]
                 (map (take 4) (map (\<lambda>k. [[0, 0, 15, 15, 1]] ! k) am)))"
  using regression_targets_ignore_labels [OF example_run] example_run by blast

text \<open>Two inside anchors and one ground-truth box equal to the first anchor; the second
  anchor does not overlap it. The second anchor ends with label 0 and its regression target
  is not zero.\<close>

theorem background_anchor_target_counterexample:
  "inside_anchor_targets first_k_draw exact_mul (\<lambda>a g. [[1], [0]]) corner_deltas single_anchor_instance ()
     [(0, 0, 15, 15), (100, 100, 115, 115)] [[0, 0, 15, 15, 1]]
   = Inr (([1, 0],
           [(0, 0, 0, 0), (- 100, - 100, - 100, - 100)],
           [(1, 1, 1, 1), (0, 0, 0, 0)],
           [(1/3, 1/3, 1/3, 1/3), (1/3, 1/3, 1/3, 1/3)]), ())"
  by (rule example_run)

subsection \<open>The layer function and the constructor\<close>

lemma load_global_unbound:
  "load_global ''im_info'' = Inl NameError" "load_global ''_unmap'' = Inl NameError"
  by (simp_all add: load_global_def module_globals_def)

lemma broadcast_mul_single: "length b = 1 \<Longrightarrow> \<exists>r. broadcast_mul a b = Inr r"
  by (simp add: broadcast_mul_def)

lemma broadcast_mul_cases: "(\<exists>r. broadcast_mul a b = Inr r) \<or> broadcast_mul a b = Inl ValueError"
  by (simp add: broadcast_mul_def)

text \<open>
  C7. The layer function never returns its four arrays: every call raises. The names
  \<open>im_info\<close> (line 130) and \<open>_unmap\<close> (lines 203-210) are bound nowhere in scope, and a
  call that reaches line 130 raises NameError there; this is every call when
  \<open>feat_stride\<close> has one element, as the default \<open>[16]\<close> has. The only other outcome
  is the ValueError of lines 100-101, when a longer stride list does not broadcast against
  the grid's width or height.\<close>

theorem layer_never_returns:
  "(\<exists>e. anchor_target_layer_np draw float_mul bbox_overlaps bbox_transform self g shape gt_boxes = Inl e
        \<and> (e = NameError \<or> e = ValueError)
        \<and> (length (feat_stride self) = 1 \<longrightarrow> e = NameError))
   \<and> load_global ''im_info'' = Inl NameError
   \<and> load_global ''_unmap'' = Inl NameError"
proof -
  obtain n height width c where sh: "shape = (n, height, width, c)" by (cases shape) auto
  let ?bx = "broadcast_mul (arange width) (feat_stride self)"
  let ?by = "broadcast_mul (arange height) (feat_stride self)"
  let ?res = "anchor_target_layer_np draw float_mul bbox_overlaps bbox_transform self g shape gt_boxes"
  have a: "?bx = Inl ValueError \<Longrightarrow> ?res = Inl ValueError"
    by (simp add: anchor_target_layer_np_def sh)
  have b: "\<And>sx. ?bx = Inr sx \<Longrightarrow> ?by = Inl ValueError \<Longrightarrow> ?res = Inl ValueError"
    by (simp add: anchor_target_layer_np_def sh)
  have c: "\<And>sx sy. ?bx = Inr sx \<Longrightarrow> ?by = Inr sy \<Longrightarrow> ?res = Inl NameError"
    by (simp add: anchor_target_layer_np_def sh Let_def load_global_unbound)
  have one: "length (feat_stride self) = 1 \<Longrightarrow> ?res = Inl NameError"
    using broadcast_mul_single [of "feat_stride self" "arange width"]
      broadcast_mul_single [of "feat_stride self" "arange height"] c by blast
  have any: "?res = Inl NameError \<or> ?res = Inl ValueError"
    using broadcast_mul_cases [of "arange width" "feat_stride self"]
      broadcast_mul_cases [of "arange height" "feat_stride self"] a b c by blast
  have "\<exists>e. ?res = Inl e \<and> (e = NameError \<or> e = ValueError)
        \<and> (length (feat_stride self) = 1 \<longrightarrow> e = NameError)"
    using any one by auto
  then show ?thesis by (simp add: load_global_unbound)
qed

theorem layer_never_returns_witness:
  "length (feat_stride single_anchor_instance) = 1
   \<and> anchor_target_layer_np first_k_draw exact_mul (\<lambda>a g. [[1]]) corner_deltas single_anchor_instance ()
        (1, 1, 1, 2) [[0, 0, 15, 15, 1]] = Inl NameError"
proof -
  have h: "length (feat_stride single_anchor_instance) = 1"
    by (simp add: single_anchor_instance_def)
  show ?thesis
    using layer_never_returns [of first_k_draw exact_mul "\<lambda>a g. [[1]]" corner_deltas
        single_anchor_instance "()" "(1, 1, 1, 2)" "[[0, 0, 15, 15, 1]]"] h
    by auto
qed

text \<open>A stride list of two elements and a feature map of width 3: line 100 raises
  ValueError before \<open>im_info\<close> is read.\<close>

theorem layer_value_error_counterexample:
  "anchor_target_layer_np first_k_draw exact_mul (\<lambda>a g. [[1]]) corner_deltas
     (single_anchor_instance\<lparr>feat_stride := [16, 16]\<rparr>) () (1, 1, 3, 2) [[0, 0, 15, 15, 1]]
   = Inl ValueError"
  by (simp add: anchor_target_layer_np_def broadcast_mul_def arange_def single_anchor_instance_def)

text \<open>
  C9. The constructor validates nothing and never fails: it stores the scales, the ratios
  and the stride it is given and assigns fixed values to the border, the clobber flag, the
  two thresholds, the foreground fraction and the batch size, so that a freshly built
  instance has \<open>negative_overlap < positive_overlap\<close> and a positive batch size. No later
  stage checks these attributes either: whatever their values, the label passes return
  labels whenever the matcher succeeds.\<close>

theorem init_validates_nothing:
  "(\<exists>s. AnchorTarget_init generate_anchors scales ratios fstride = Inr s
        \<and> anchor_scales s = scales \<and> anchor_ratios s = ratios \<and> feat_stride s = fstride
        \<and> allowed_border s = 0 \<and> clobber_positives s = False
        \<and> positive_overlap s = 7 / 10 \<and> negative_overlap s = 3 / 10
        \<and> foreground_fraction s = 1 / 2 \<and> batch_size s = 256
        \<and> negative_overlap s < positive_overlap s \<and> 0 < batch_size s)
   \<and> (overlap_matcher ov m = Inr (am, mx, gb) \<longrightarrow>
        (\<exists>labels. presample_labels self ov m = Inr (am, labels)))"
  by (simp add: AnchorTarget_init_def Let_def presample_labels_def)

theorem init_validates_nothing_witness:
  "overlap_matcher [[1/10], [1/5]] 1 = Inr ([0, 0], [1/10, 1/5], [1])
   \<and> (\<exists>labels. presample_labels
         (single_anchor_instance\<lparr>negative_overlap := 4 / 5, batch_size := 0\<rparr>)
         [[1/10], [1/5]] 1 = Inr ([0, 0], labels))"
  using init_validates_nothing [of "\<lambda>r s. []" "[]" "[]" "[]" "[[1/10], [1/5]]" 1 "[0, 0]"
      "[1/10, 1/5]" "[1]" "single_anchor_instance\<lparr>negative_overlap := 4 / 5, batch_size := 0\<rparr>"]
    matcher_example
  by blast

text \<open>An instance as the constructor builds it, and then with an attribute set outside
  the stated ranges (\<open>negative_overlap\<close> above \<open>positive_overlap\<close>; batch size 0): the
  label passes and the sampler return normally.\<close>

theorem unvalidated_configuration_counterexample:
  "AnchorTarget_init (\<lambda>r s. [(0, 0, 15, 15)]) [1] [1] [16] = Inr single_anchor_instance
   \<and> presample_labels (single_anchor_instance\<lparr>negative_overlap := 4 / 5\<rparr>) [[3/4]] 1
       = Inr ([0], [1])
   \<and> balanced_sampler first_k_draw exact_mul (single_anchor_instance\<lparr>batch_size := 0\<rparr>) ()
         [1, 0]
       = Inr ([- 1, - 1], ())"
  by (simp add: AnchorTarget_init_def single_anchor_instance_def presample_labels_def
      overlap_matcher_def argmax_axis1_def argmax_axis0_def argmax_list_def column_def
      where2_rows_def label_assigner_def assign_mask_def assign_inds_def balanced_sampler_def
      py_int_def where1_def count_true_def random_choice_def first_k_draw_def exact_mul_def
      Let_def)

end
